theory Spec2Isabelle
  imports Main
begin

section \<open>The level registry (logger.py, lines 16-31)\<close>

text \<open>
  The severities of the standard \<^verbatim>\<open>logging\<close> module that the table refers to by name.
  Their values are those of the standard library.
\<close>

definition logging_NOTSET :: int where "logging_NOTSET = 0"
definition logging_DEBUG :: int where "logging_DEBUG = 10"
definition logging_INFO :: int where "logging_INFO = 20"
definition logging_WARNING :: int where "logging_WARNING = 30"
definition logging_ERROR :: int where "logging_ERROR = 40"
definition logging_CRITICAL :: int where "logging_CRITICAL = 50"

text \<open>
  The colour tags of the \<^verbatim>\<open>colored\<close> package (\<^verbatim>\<open>Fore.CYAN\<close>, ..., \<^verbatim>\<open>Style.RESET\<close>) are
  escape sequences; the model keeps them symbolic.
\<close>

datatype color = CYAN | WHITE | YELLOW | RED | light_gray | GREEN | RESET

record level_info =
  level :: int
  color :: color

text \<open>
  \<^verbatim>\<open>levels\<close> is a dictionary literal; Python keeps its insertion order, which
  \<^verbatim>\<open>__map_correct_level\<close> iterates over, so the model is an association list.
\<close>

definition levels :: "(string \<times> level_info) list" where
  "levels =
    [(''debug'',    \<lparr>level = logging_DEBUG,    color = CYAN\<rparr>),
     (''info'',     \<lparr>level = logging_INFO,     color = WHITE\<rparr>),
     (''warning'',  \<lparr>level = logging_WARNING,  color = YELLOW\<rparr>),
     (''error'',    \<lparr>level = logging_ERROR,    color = RED\<rparr>),
     (''critical'', \<lparr>level = logging_CRITICAL, color = RED\<rparr>),
     (''step'',     \<lparr>level = 21, color = WHITE\<rparr>),
     (''substep'',  \<lparr>level = 22, color = light_gray\<rparr>),
     (''pass'',     \<lparr>level = 23, color = GREEN\<rparr>),
     (''fail'',     \<lparr>level = 31, color = RED\<rparr>)]"

text \<open>\<^verbatim>\<open>levels[name]\<close> and \<^verbatim>\<open>levels[name]["level"]\<close>; a missing key raises \<^verbatim>\<open>KeyError\<close>.\<close>

datatype error =
    AttributeError | TypeError | KeyError
  | FileExistsError | NotADirectoryError | IsADirectoryError | FileNotFoundError

definition levels_item :: "string \<Rightarrow> error + level_info" where
  "levels_item name = (case map_of levels name of None \<Rightarrow> Inl KeyError | Some v \<Rightarrow> Inr v)"

definition rank :: "string \<Rightarrow> error + int" where
  "rank name = (case levels_item name of Inl e \<Rightarrow> Inl e | Inr v \<Rightarrow> Inr (level v))"

text \<open>
  \<^verbatim>\<open>levels_by_value = {v["level"]: k for k, v in levels.items()}\<close>: the comprehension
  stores the entries in order, a later entry overwriting an earlier one with the same rank.
\<close>

definition levels_by_value :: "int \<rightharpoonup> string" where
  "levels_by_value = fold (\<lambda>(k, v) m. m(level v \<mapsto> k)) levels Map.empty"

text \<open>
  \<^verbatim>\<open>ColorFormatter.__get_level_by_value\<close>: \<^verbatim>\<open>if key\<close> is Python truthiness, false for
  \<^verbatim>\<open>None\<close> and for the empty string.
\<close>

definition get_level_by_value :: "int \<Rightarrow> error + (string option \<times> level_info option)" where
  "get_level_by_value target_level =
     (case levels_by_value target_level of
        None \<Rightarrow> Inr (None, None)
      | Some key \<Rightarrow>
          if key \<noteq> [] then
            (case levels_item key of Inl e \<Rightarrow> Inl e | Inr v \<Rightarrow> Inr (Some key, Some v))
          else Inr (None, None))"

section \<open>Records and formatters (logger.py, lines 39-72)\<close>

text \<open>
  A \<^verbatim>\<open>LogRecord\<close> as far as the formatters read it: the rank, the level name, the
  \<^verbatim>\<open>step\<close> attribute that every call of \<^verbatim>\<open>TestLogger\<close> passes in \<^verbatim>\<open>extra\<close>, and the
  message. Time stamps and the caller's location are left out.
\<close>

record log_record =
  levelno :: int
  levelname :: string
  step_tag :: string
  message :: string

text \<open>
  A rendered line is a sequence of pieces. \<^verbatim>\<open>Formatted fmt r\<close> stands for the text the
  standard \<^verbatim>\<open>logging.Formatter.format\<close> produces from the template \<^verbatim>\<open>fmt\<close> and the
  record \<^verbatim>\<open>r\<close>; the %-substitution itself belongs to the standard library and is not
  unfolded here (templates are taken to be well formed).
\<close>

datatype chunk = Esc color | Text string | Formatted string log_record

datatype formatter = ColorFormatter string | Formatter string

text \<open>\<^verbatim>\<open>ColorFormatter.format\<close>, lines 59-72.\<close>

definition ColorFormatter_format :: "string \<Rightarrow> log_record \<Rightarrow> error + chunk list" where
  "ColorFormatter_format fmt record =
     (let formatted = [Formatted fmt record] in
      case get_level_by_value (levelno record) of
        Inl e \<Rightarrow> Inl e
      | Inr (level_key, level_info) \<Rightarrow>
          let col = (case level_info of Some v \<Rightarrow> color v | None \<Rightarrow> RESET);
              formatted = (if level_key = Some ''substep''
                           then Text ''   '' # formatted else formatted)
          in Inr ([Esc col] @ formatted @ [Esc RESET]))"

definition format_with :: "formatter \<Rightarrow> log_record \<Rightarrow> error + chunk list" where
  "format_with f record =
     (case f of
        ColorFormatter fmt \<Rightarrow> ColorFormatter_format fmt record
      | Formatter fmt \<Rightarrow> Inr [Formatted fmt record])"

section \<open>The process state\<close>

text \<open>
  Handlers are objects: the logger's handler list and the fields of \<^verbatim>\<open>TestLogger\<close> hold
  references to them, and \<^verbatim>\<open>setLevel\<close> mutates the object a reference points to. The
  model keeps every handler ever created in \<^verbatim>\<open>objects\<close>, in order of creation; a
  reference is the position in that list.
\<close>

type_synonym path = "string list"

datatype stream = Console | File path

record handler =
  h_stream :: stream
  h_level :: int
  h_formatter :: "formatter option"

datatype node = Dir | RegularFile

text \<open>
  The state holds the private fields that \<^verbatim>\<open>TestLogger.__init__\<close> assigns (lines 91-129),
  the two attributes of the underlying \<^verbatim>\<open>logging.Logger\<close> that the code uses (its level
  and its handler list), and the environment: the handler objects, the level of the root
  logger, the level names registered with \<^verbatim>\<open>logging.addLevelName\<close>, the directory
  tree below the working directory (a path is the list of its components, \<^verbatim>\<open>[]\<close> the
  working directory itself), and the trace of lines emitted so far, each with the
  reference of the handler that wrote it.
\<close>

record state =
  logger_level :: int
  logger_handlers :: "nat list"
  call_file_handler :: "nat option"
  setup_file_handler :: "nat option"
  term_handler :: "nat option"
  steps_file_handler :: "nat option"
  combined_file_handler :: "nat option"
  term_format :: string
  setup_format :: string
  term_config_loglevel :: int
  term_setup_loglevel :: int
  term_call_loglevel :: int
  setup_file_loglevel :: int
  call_file_loglevel :: int
  stepn :: int
  substepn :: int
  objects :: "handler list"
  root_level :: int
  level_names :: "int \<rightharpoonup> string"
  filesystem :: "path \<rightharpoonup> node"
  written :: "(nat \<times> chunk list) list"

text \<open>
  An operation returns the exception it raised, if any, and the state it leaves behind:
  what a Python method has assigned before it raises stays assigned.
\<close>

type_synonym outcome = "error option \<times> state"

definition and_then :: "(state \<Rightarrow> outcome) \<Rightarrow> (state \<Rightarrow> outcome) \<Rightarrow> state \<Rightarrow> outcome" where
  "and_then f g s = (case f s of (Some e, s') \<Rightarrow> (Some e, s') | (None, s') \<Rightarrow> g s')"

definition deref :: "state \<Rightarrow> nat \<Rightarrow> handler option" where
  "deref s r = (if r < length (objects s) then Some (objects s ! r) else None)"

text \<open>Creating a handler object: \<^verbatim>\<open>Handler.__init__\<close> sets level \<^verbatim>\<open>NOTSET\<close> and no formatter.\<close>

definition new_handler :: "stream \<Rightarrow> state \<Rightarrow> nat \<times> state" where
  "new_handler st s =
     (length (objects s),
      s\<lparr>objects := objects s @ [\<lparr>h_stream = st, h_level = logging_NOTSET, h_formatter = None\<rparr>]\<rparr>)"

text \<open>
  \<^verbatim>\<open>handler.setLevel(level)\<close> and \<^verbatim>\<open>handler.setFormatter(f)\<close> on a field that may hold
  \<^verbatim>\<open>None\<close>: calling a method on \<^verbatim>\<open>None\<close> raises \<^verbatim>\<open>AttributeError\<close>.
\<close>

definition setLevel :: "nat option \<Rightarrow> int \<Rightarrow> state \<Rightarrow> outcome" where
  "setLevel ref lvl s =
     (case ref of
        None \<Rightarrow> (Some AttributeError, s)
      | Some r \<Rightarrow> (None, s\<lparr>objects := (objects s)[r := (objects s ! r)\<lparr>h_level := lvl\<rparr>]\<rparr>))"

definition setFormatter :: "nat option \<Rightarrow> formatter \<Rightarrow> state \<Rightarrow> outcome" where
  "setFormatter ref f s =
     (case ref of
        None \<Rightarrow> (Some AttributeError, s)
      | Some r \<Rightarrow> (None, s\<lparr>objects := (objects s)[r := (objects s ! r)\<lparr>h_formatter := Some f\<rparr>]\<rparr>))"

text \<open>\<^verbatim>\<open>Logger.addHandler\<close> appends the handler unless it is in the list already.\<close>

definition addHandler :: "nat \<Rightarrow> state \<Rightarrow> state" where
  "addHandler r s =
     (if r \<in> set (logger_handlers s) then s
      else s\<lparr>logger_handlers := logger_handlers s @ [r]\<rparr>)"

definition removeHandler :: "nat \<Rightarrow> state \<Rightarrow> state" where
  "removeHandler r s = s\<lparr>logger_handlers := remove1 r (logger_handlers s)\<rparr>"

section \<open>The standard logger (the part of \<^verbatim>\<open>logging.Logger\<close> the code calls)\<close>

text \<open>\<^verbatim>\<open>str(n)\<close> for an integer, and \<^verbatim>\<open>sep.join(parts)\<close>.\<close>

fun str_nat :: "nat \<Rightarrow> string" where
  "str_nat n =
     (if n < 10 then [''0123456789'' ! n]
      else str_nat (n div 10) @ [''0123456789'' ! (n mod 10)])"

declare str_nat.simps [simp del]

definition str_int :: "int \<Rightarrow> string" where
  "str_int i = (if i < 0 then CHR ''-'' # str_nat (nat (- i)) else str_nat (nat i))"

fun join :: "string \<Rightarrow> string list \<Rightarrow> string" where
  "join sep [] = []"
| "join sep [x] = x"
| "join sep (x # y # ys) = x @ sep @ join sep (y # ys)"

text \<open>
  \<^verbatim>\<open>logging.getLevelName\<close> for a rank: the registered name, or \<^verbatim>\<open>"Level n"\<close>.
  \<^verbatim>\<open>ColorFormatter.__init__\<close> (lines 43-53) registers the four custom names and fills in
  the default template.
\<close>

definition getLevelName :: "int \<Rightarrow> state \<Rightarrow> string" where
  "getLevelName lvl s =
     (case level_names s lvl of Some n \<Rightarrow> n | None \<Rightarrow> ''Level '' @ str_int lvl)"

definition addLevelName :: "int \<Rightarrow> string \<Rightarrow> state \<Rightarrow> state" where
  "addLevelName lvl name s = s\<lparr>level_names := (level_names s)(lvl \<mapsto> name)\<rparr>"

definition ColorFormatter_init :: "string option \<Rightarrow> state \<Rightarrow> (error + formatter) \<times> state" where
  "ColorFormatter_init fmt s =
     (let fmt = (case fmt of None \<Rightarrow> ''[%(asctime)s] %(levelname)-8s %(message)s''
                 | Some f \<Rightarrow> f)
      in case (rank ''step'', rank ''substep'', rank ''pass'', rank ''fail'') of
           (Inr a, Inr b, Inr c, Inr d) \<Rightarrow>
             (Inr (ColorFormatter fmt),
              addLevelName d ''FAIL'' (addLevelName c ''PASS''
                (addLevelName b ''SUBSTEP'' (addLevelName a ''STEP'' s))))
         | _ \<Rightarrow> (Inl KeyError, s))"

text \<open>
  \<^verbatim>\<open>Logger.isEnabledFor\<close>: the logger is not disabled and \<^verbatim>\<open>logging.disable\<close> is never
  called, so the manager's threshold is its default 0. The effective level is the
  logger's own unless that is \<^verbatim>\<open>NOTSET\<close>, when the root logger's is used.
\<close>

definition manager_disable :: int where "manager_disable = 0"

definition getEffectiveLevel :: "state \<Rightarrow> int" where
  "getEffectiveLevel s = (if logger_level s \<noteq> 0 then logger_level s else root_level s)"

definition isEnabledFor :: "int \<Rightarrow> state \<Rightarrow> bool" where
  "isEnabledFor lvl s = (if manager_disable \<ge> lvl then False else lvl \<ge> getEffectiveLevel s)"

text \<open>
  \<^verbatim>\<open>Handler.emit\<close> formats the record and writes the line; an exception raised while
  formatting is caught there (\<^verbatim>\<open>handleError\<close>) and nothing is written. A handler without
  a formatter uses the default one.
\<close>

definition emit :: "nat \<Rightarrow> log_record \<Rightarrow> state \<Rightarrow> state" where
  "emit r record s =
     (case deref s r of
        None \<Rightarrow> s
      | Some h \<Rightarrow>
          (case format_with (case h_formatter h of Some f \<Rightarrow> f
                             | None \<Rightarrow> Formatter ''%(message)s'') record of
             Inl e \<Rightarrow> s
           | Inr line \<Rightarrow> s\<lparr>written := written s @ [(r, line)]\<rparr>))"

text \<open>
  \<^verbatim>\<open>Logger.callHandlers\<close>: every handler of the logger whose level the record's rank
  reaches handles the record. Propagation to handlers of the root logger and the
  last-resort handler write to destinations that are not the router's and are left out.
\<close>

fun callHandlers :: "nat list \<Rightarrow> log_record \<Rightarrow> state \<Rightarrow> state" where
  "callHandlers [] record s = s"
| "callHandlers (r # rs) record s =
     callHandlers rs record
       (case deref s r of
          None \<Rightarrow> s
        | Some h \<Rightarrow> if levelno record \<ge> h_level h then emit r record s else s)"

text \<open>
  \<^verbatim>\<open>Logger._log(level, msg, args, extra=...)\<close>. The value passed as \<^verbatim>\<open>level\<close> is either an
  integer or, in \<^verbatim>\<open>passed\<close>, a whole entry of \<^verbatim>\<open>levels\<close>. Building the record looks the
  level up in the table of level names; a dictionary is not hashable, so that lookup
  raises \<^verbatim>\<open>TypeError\<close> and no record exists.
\<close>

datatype level_arg = Rank int | Descriptor level_info

definition Logger_log :: "level_arg \<Rightarrow> string \<Rightarrow> string \<Rightarrow> state \<Rightarrow> outcome" where
  "Logger_log lvl msg extra s =
     (case lvl of
        Descriptor d \<Rightarrow> (Some TypeError, s)
      | Rank n \<Rightarrow>
          (None, callHandlers (logger_handlers s)
                   \<lparr>levelno = n, levelname = getLevelName n s,
                    step_tag = extra, message = msg\<rparr> s))"

text \<open>\<^verbatim>\<open>Logger.debug\<close>, \<^verbatim>\<open>info\<close>, \<^verbatim>\<open>warning\<close>, \<^verbatim>\<open>error\<close>: gated by \<^verbatim>\<open>isEnabledFor\<close>.\<close>

definition Logger_leveled :: "int \<Rightarrow> string \<Rightarrow> string \<Rightarrow> state \<Rightarrow> outcome" where
  "Logger_leveled lvl msg extra s =
     (if isEnabledFor lvl s then Logger_log (Rank lvl) msg extra s else (None, s))"

section \<open>The file system calls of \<^verbatim>\<open>TestLogger\<close> (logger.py, lines 173-178)\<close>





section \<open>\<^verbatim>\<open>TestLogger\<close> (logger.py, lines 75-296)\<close>

text \<open>
  The keyword arguments \<^verbatim>\<open>__init__\<close> reads, each optional. The constructor assigns the
  fields below and leaves the rest of the process (the handlers already on the named
  logger, the files) as it finds it.
\<close>

record init_kwargs =
  kw_log_term_format :: "string option"
  kw_log_setup_format :: "string option"
  kw_term_config_loglevel :: "int option"
  kw_term_setup_loglevel :: "int option"
  kw_term_call_loglevel :: "int option"
  kw_setup_file_loglevel :: "int option"
  kw_call_file_loglevel :: "int option"

definition kwargs_get :: "'a option \<Rightarrow> 'a \<Rightarrow> 'a" where
  "kwargs_get v d = (case v of Some x \<Rightarrow> x | None \<Rightarrow> d)"

definition TestLogger_init :: "init_kwargs \<Rightarrow> state \<Rightarrow> outcome" where
  "TestLogger_init kwargs s =
     (case rank ''info'' of
        Inl e \<Rightarrow> (Some e, s)
      | Inr info_level \<Rightarrow>
          (None,
           s\<lparr>logger_level := info_level,
             call_file_handler := None,
             setup_file_handler := None,
             term_handler := None,
             steps_file_handler := None,
             combined_file_handler := None,
             term_format :=
               kwargs_get (kw_log_term_format kwargs) ''[%(levelname)s%(step)s] - %(message)s'',
             setup_format :=
               kwargs_get (kw_log_setup_format kwargs) ''[%(levelname)s%(step)s] - %(message)s'',
             term_config_loglevel := kwargs_get (kw_term_config_loglevel kwargs) info_level,
             term_setup_loglevel := kwargs_get (kw_term_setup_loglevel kwargs) info_level,
             term_call_loglevel := kwargs_get (kw_term_call_loglevel kwargs) info_level,
             setup_file_loglevel := kwargs_get (kw_setup_file_loglevel kwargs) info_level,
             call_file_loglevel := kwargs_get (kw_call_file_loglevel kwargs) info_level,
             stepn := 0,
             substepn := 0\<rparr>))"

text \<open>
  The properties of the class (lines 131-165). \<^verbatim>\<open>term_config_loglevel\<close>,
  \<^verbatim>\<open>term_setup_loglevel\<close> and \<^verbatim>\<open>term_call_loglevel\<close> have a setter; \<^verbatim>\<open>logger\<close>, \<^verbatim>\<open>stepn\<close> and
  \<^verbatim>\<open>substepn\<close> have a getter only, and assigning to such a property raises
  \<^verbatim>\<open>AttributeError\<close>.
\<close>

datatype property =
    P_term_config_loglevel | P_term_setup_loglevel | P_term_call_loglevel
  | P_stepn | P_substepn

fun property_get :: "property \<Rightarrow> state \<Rightarrow> int" where
  "property_get P_term_config_loglevel s = term_config_loglevel s"
| "property_get P_term_setup_loglevel s = term_setup_loglevel s"
| "property_get P_term_call_loglevel s = term_call_loglevel s"
| "property_get P_stepn s = stepn s"
| "property_get P_substepn s = substepn s"

fun property_set :: "property \<Rightarrow> int \<Rightarrow> state \<Rightarrow> outcome" where
  "property_set P_term_config_loglevel v s = (None, s\<lparr>term_config_loglevel := v\<rparr>)"
| "property_set P_term_setup_loglevel v s = (None, s\<lparr>term_setup_loglevel := v\<rparr>)"
| "property_set P_term_call_loglevel v s = (None, s\<lparr>term_call_loglevel := v\<rparr>)"
| "property_set P_stepn v s = (Some AttributeError, s)"
| "property_set P_substepn v s = (Some AttributeError, s)"

text \<open>\<^verbatim>\<open>init_term_handler\<close>, lines 180-197.\<close>

definition init_term_handler :: "int option \<Rightarrow> string option \<Rightarrow> state \<Rightarrow> outcome" where
  "init_term_handler lvl fmt s =
     (let s = (case lvl of Some l \<Rightarrow> s\<lparr>term_config_loglevel := l\<rparr> | None \<Rightarrow> s);
          s = (case fmt of Some f \<Rightarrow> s\<lparr>term_format := f\<rparr> | None \<Rightarrow> s);
          (r, s) = new_handler Console s;
          s = s\<lparr>term_handler := Some r\<rparr>
      in and_then (\<lambda>s. setLevel (term_handler s) (term_config_loglevel s) s)
           (\<lambda>s. case ColorFormatter_init (Some (term_format s)) s of
                   (Inl e, s) \<Rightarrow> (Some e, s)
                 | (Inr f, s) \<Rightarrow>
                     and_then (setFormatter (term_handler s) f)
                       (\<lambda>s. (None, addHandler r s)) s) s)"


text \<open>\<^verbatim>\<open>configure_term_logger_setup\<close> and \<^verbatim>\<open>configure_term_logger_call\<close>, lines 224-228.\<close>

definition configure_term_logger_setup :: "state \<Rightarrow> outcome" where
  "configure_term_logger_setup s = setLevel (term_handler s) (term_setup_loglevel s) s"

definition configure_term_logger_call :: "state \<Rightarrow> outcome" where
  "configure_term_logger_call s = setLevel (term_handler s) (term_call_loglevel s) s"




definition error :: "string list \<Rightarrow> string \<Rightarrow> string \<Rightarrow> bool \<Rightarrow> state \<Rightarrow> outcome" where
  "error args sep end enable s =
     (let extra = [] in
      if enable \<and> args \<noteq> [] then
        (let msg = join sep args @ end in Logger_leveled logging_ERROR msg extra s)
      else (None, s))"

definition passed :: "string list \<Rightarrow> string \<Rightarrow> string \<Rightarrow> bool \<Rightarrow> state \<Rightarrow> outcome" where
  "passed args sep end enable s =
     (let extra = [] in
      if enable \<and> args \<noteq> [] then
        (let msg = join sep args @ end in
         case levels_item ''pass'' of
           Inl e \<Rightarrow> (Some e, s)
         | Inr d \<Rightarrow> Logger_log (Descriptor d) msg extra s)
      else (None, s))"

definition fail :: "string list \<Rightarrow> string \<Rightarrow> string \<Rightarrow> bool \<Rightarrow> state \<Rightarrow> outcome" where
  "fail args sep end enable s =
     (let extra = [] in
      if enable \<and> args \<noteq> [] then
        (let msg = join sep args @ end in
         case rank ''fail'' of
           Inl e \<Rightarrow> (Some e, s)
         | Inr n \<Rightarrow> Logger_log (Rank n) msg extra s)
      else (None, s))"

definition step :: "string list \<Rightarrow> string \<Rightarrow> string \<Rightarrow> bool \<Rightarrow> state \<Rightarrow> outcome" where
  "step args sep end enable s =
     and_then (\<lambda>s. property_set P_stepn (property_get P_stepn s + 1) s)
       (and_then (property_set P_substepn 0)
          (\<lambda>s. let extra = '' '' @ str_int (property_get P_stepn s) in
                if enable \<and> args \<noteq> [] then
                  (let msg = join sep args @ end in
                   case rank ''step'' of
                     Inl e \<Rightarrow> (Some e, s)
                   | Inr n \<Rightarrow> Logger_log (Rank n) msg extra s)
                else (None, s))) s"

definition substep :: "string list \<Rightarrow> string \<Rightarrow> string \<Rightarrow> bool \<Rightarrow> state \<Rightarrow> outcome" where
  "substep args sep end enable s =
     and_then (\<lambda>s. property_set P_substepn (property_get P_substepn s + 1) s)
       (\<lambda>s. let extra = '' '' @ str_int (property_get P_stepn s) @ ''.''
                           @ str_int (property_get P_substepn s) in
             if enable \<and> args \<noteq> [] then
               (let msg = join sep args @ end in
                case rank ''substep'' of
                  Inl e \<Rightarrow> (Some e, s)
                | Inr n \<Rightarrow> Logger_log (Rank n) msg extra s)
             else (None, s)) s"

text \<open>
  The process before \<^verbatim>\<open>log = TestLogger()\<close> (line 296) runs: no handler object exists,
  the logger named \<^verbatim>\<open>test_logger\<close> has no handlers, the root logger has its default level
  \<^verbatim>\<open>WARNING\<close>, the standard level names are registered, and the directory tree is the
  given one. The fields \<^verbatim>\<open>__init__\<close> assigns are overwritten by it.
\<close>

definition standard_level_names :: "int \<rightharpoonup> string" where
  "standard_level_names =
     [logging_CRITICAL \<mapsto> ''CRITICAL'', logging_ERROR \<mapsto> ''ERROR'',
      logging_WARNING \<mapsto> ''WARNING'', logging_INFO \<mapsto> ''INFO'',
      logging_DEBUG \<mapsto> ''DEBUG'', logging_NOTSET \<mapsto> ''NOTSET'']"

definition process_start :: "(path \<rightharpoonup> node) \<Rightarrow> state" where
  "process_start fs =
     \<lparr>logger_level = logging_NOTSET, logger_handlers = [],
      call_file_handler = None, setup_file_handler = None, term_handler = None,
      steps_file_handler = None, combined_file_handler = None,
      term_format = [], setup_format = [],
      term_config_loglevel = 0, term_setup_loglevel = 0, term_call_loglevel = 0,
      setup_file_loglevel = 0, call_file_loglevel = 0,
      stepn = 0, substepn = 0,
      objects = [], root_level = logging_WARNING,
      level_names = standard_level_names, filesystem = fs, written = []\<rparr>"

definition no_kwargs :: init_kwargs where
  "no_kwargs =
     \<lparr>kw_log_term_format = None, kw_log_setup_format = None,
      kw_term_config_loglevel = None, kw_term_setup_loglevel = None,
      kw_term_call_loglevel = None, kw_setup_file_loglevel = None,
      kw_call_file_loglevel = None\<rparr>"

definition log :: state where
  "log = snd (TestLogger_init no_kwargs (process_start Map.empty))"

section \<open>The level option of the plugin (plugin.py, lines 17-25)\<close>

text \<open>
  \<^verbatim>\<open>str.lower\<close> on the ASCII letters, \<^verbatim>\<open>str.replace(c, '')\<close> for a single character, and
  the substring test \<^verbatim>\<open>a in b\<close>.
\<close>

definition lower :: "string \<Rightarrow> string" where
  "lower s =
     map (\<lambda>c. case map_of (zip ''ABCDEFGHIJKLMNOPQRSTUVWXYZ'' ''abcdefghijklmnopqrstuvwxyz'') c of
                 Some l \<Rightarrow> l | None \<Rightarrow> c) s"

definition remove_char :: "char \<Rightarrow> string \<Rightarrow> string" where
  "remove_char c s = filter (\<lambda>x. x \<noteq> c) s"

fun startswith :: "string \<Rightarrow> string \<Rightarrow> bool" where
  "startswith s [] = True"
| "startswith [] (p # ps) = False"
| "startswith (c # cs) (p # ps) = (c = p \<and> startswith cs ps)"

fun contains :: "string \<Rightarrow> string \<Rightarrow> bool" where
  "contains [] sub = (sub = [])"
| "contains (c # cs) sub = (startswith (c # cs) sub \<or> contains cs sub)"

text \<open>The loop over \<^verbatim>\<open>levels.items()\<close>: the first key that contains the name replaces it.\<close>

fun first_key_containing :: "string \<Rightarrow> (string \<times> level_info) list \<Rightarrow> string" where
  "first_key_containing level_name [] = level_name"
| "first_key_containing level_name ((key, v) # rest) =
     (if contains key level_name then key else first_key_containing level_name rest)"

definition normalise :: "string \<Rightarrow> string" where
  "normalise level_name =
     remove_char CHR ''_'' (remove_char CHR ''-'' (remove_char CHR '' '' (lower level_name)))"

definition map_correct_level :: "string \<Rightarrow> error + int" where
  "map_correct_level level_name =
     (let level_name = normalise level_name;
          level_name = first_key_containing level_name levels
      in case rank ''info'' of
           Inl e \<Rightarrow> Inl e
         | Inr dflt \<Rightarrow>
             Inr (case map_of levels level_name of None \<Rightarrow> dflt | Some v \<Rightarrow> level v))"

section \<open>Notions used to state the properties\<close>

text \<open>The order of two named levels by rank.\<close>

definition rank_lt :: "string \<Rightarrow> string \<Rightarrow> bool" where
  "rank_lt a b = (case (rank a, rank b) of (Inr x, Inr y) \<Rightarrow> x < y | _ \<Rightarrow> False)"






text \<open>
  What one handler contributes to the trace when the logger hands it a record: one line
  when the record's rank reaches the handler's level, nothing otherwise.
\<close>

definition delivery :: "log_record \<Rightarrow> state \<Rightarrow> nat \<Rightarrow> (nat \<times> chunk list) list" where
  "delivery lr s r =
     (case deref s r of
        None \<Rightarrow> []
      | Some h \<Rightarrow>
          if levelno lr \<ge> h_level h then
            (case format_with (case h_formatter h of Some f \<Rightarrow> f
                               | None \<Rightarrow> Formatter ''%(message)s'') lr of
               Inl e \<Rightarrow> [] | Inr line \<Rightarrow> [(r, line)])
          else [])"


section \<open>Facts about the level registry\<close>

lemmas logging_defs = logging_NOTSET_def logging_DEBUG_def logging_INFO_def logging_WARNING_def
  logging_ERROR_def logging_CRITICAL_def

lemma rank_values:
  "rank ''debug'' = Inr 10" "rank ''info'' = Inr 20" "rank ''warning'' = Inr 30"
  "rank ''error'' = Inr 40" "rank ''critical'' = Inr 50" "rank ''step'' = Inr 21"
  "rank ''substep'' = Inr 22" "rank ''pass'' = Inr 23" "rank ''fail'' = Inr 31"
  by (simp_all add: rank_def levels_item_def levels_def logging_defs)


lemma levels_by_value_eq:
  "levels_by_value r =
     (if r = 31 then Some ''fail'' else if r = 23 then Some ''pass''
      else if r = 22 then Some ''substep'' else if r = 21 then Some ''step''
      else if r = 50 then Some ''critical'' else if r = 40 then Some ''error''
      else if r = 30 then Some ''warning'' else if r = 20 then Some ''info''
      else if r = 10 then Some ''debug'' else None)"
  by (simp add: levels_by_value_def levels_def logging_defs)




text \<open>
  Claim C5, as the code has it. The table gives \<^verbatim>\<open>step\<close>, \<^verbatim>\<open>substep\<close>, \<^verbatim>\<open>pass\<close> and \<^verbatim>\<open>fail\<close> the
  ranks 21, 22, 23 and 31. With the standard ranks of the other five levels, the first
  three lie strictly between \<^verbatim>\<open>info\<close> (20) and \<^verbatim>\<open>warning\<close> (30), and \<^verbatim>\<open>fail\<close> lies strictly
  between \<^verbatim>\<open>warning\<close> (30) and \<^verbatim>\<open>error\<close> (40), hence below \<^verbatim>\<open>critical\<close> (50).
\<close>

theorem custom_ranks_interleaving:
  "rank ''step'' = Inr 21 \<and> rank ''substep'' = Inr 22 \<and> rank ''pass'' = Inr 23 \<and>
   rank ''fail'' = Inr 31 \<and>
   rank_lt ''info'' ''step'' \<and> rank_lt ''step'' ''substep'' \<and> rank_lt ''substep'' ''pass'' \<and>
   rank_lt ''pass'' ''warning'' \<and> rank_lt ''warning'' ''fail'' \<and> rank_lt ''fail'' ''error'' \<and>
   rank_lt ''error'' ''critical''"
  by (simp add: rank_lt_def rank_values)

text \<open>
  Claim C5 as the specification words it fails: the rank of \<^verbatim>\<open>step\<close> is not above the rank
  of \<^verbatim>\<open>warning\<close>, and the rank of \<^verbatim>\<open>fail\<close> is not above the rank of \<^verbatim>\<open>critical\<close>.
\<close>

theorem custom_ranks_not_above_warning_critical:
  "\<not> rank_lt ''warning'' ''step'' \<and> \<not> rank_lt ''warning'' ''substep'' \<and>
   \<not> rank_lt ''warning'' ''pass'' \<and> \<not> rank_lt ''critical'' ''fail''"
  by (simp add: rank_lt_def rank_values)



section \<open>Facts about the plugin's level option\<close>

lemma first_key_containing_none:
  "\<forall>k \<in> set (map fst kvs). \<not> contains k n \<Longrightarrow> first_key_containing n kvs = n"
  by (induction kvs) auto

lemma startswith_self: "startswith s s"
  by (induction s) auto

lemma contains_self: "contains k k"
  by (cases k) (auto simp add: startswith_self)

lemma map_correct_level_returns: "\<exists>n. map_correct_level name = Inr n"
  by (simp add: map_correct_level_def rank_values Let_def)

lemma map_correct_level_falls_back:
  assumes "\<forall>k \<in> set (map fst levels). \<not> contains k (normalise name)"
  shows "map_correct_level name = Inr 20"
proof -
  from assms have fk: "first_key_containing (normalise name) levels = normalise name"
    by (rule first_key_containing_none)
  have "map_of levels (normalise name) = None"
  proof (cases "map_of levels (normalise name)")
    case None
    then show ?thesis .
  next
    case (Some v)
    then have "normalise name \<in> set (map fst levels)"
      by (metis map_of_SomeD image_eqI fst_conv set_map)
    with assms contains_self show ?thesis by blast
  qed
  with fk show ?thesis
    by (simp add: map_correct_level_def rank_values Let_def)
qed

text \<open>
  Claim C8, as the code has it. \<^verbatim>\<open>__map_correct_level\<close> never raises: it always returns a
  rank. A name that, once put in lower case and stripped of spaces, hyphens and
  underscores, is contained in no key of \<^verbatim>\<open>levels\<close> resolves to the rank of \<^verbatim>\<open>info\<close>, 20.
\<close>

theorem map_correct_level_defaults:
  "(\<exists>n. map_correct_level name = Inr n) \<and>
   ((\<forall>k \<in> set (map fst levels). \<not> contains k (normalise name)) \<longrightarrow>
      map_correct_level name = Inr 20)"
  using map_correct_level_returns map_correct_level_falls_back by blast

text \<open>Claim C8 as amended, at the name \<^verbatim>\<open>Bo-Gus\<close>, which no key contains.\<close>

theorem map_correct_level_defaults_witness:
  "normalise ''Bo-Gus'' = ''bogus'' \<and> map_of levels ''bogus'' = None \<and>
   map_correct_level ''Bo-Gus'' = Inr 20"
proof -
  have n: "normalise ''Bo-Gus'' = ''bogus''"
    by (simp add: normalise_def lower_def remove_char_def)
  have h: "\<forall>k \<in> set (map fst levels). \<not> contains k (normalise ''Bo-Gus'')"
    by (simp add: levels_def n)
  have m: "map_of levels ''bogus'' = None" by (simp add: levels_def)
  from map_correct_level_defaults [of "''Bo-Gus''"] h n m show ?thesis by blast
qed

text \<open>
  Claim C8 as the specification words it fails: \<^verbatim>\<open>bogus\<close> is not a key of the registry,
  and resolving it does not fail but gives the rank 20 of \<^verbatim>\<open>info\<close>.
\<close>

theorem map_correct_level_unknown_name:
  "map_of levels ''bogus'' = None \<and> map_correct_level ''bogus'' = Inr 20"
  by (simp add: map_correct_level_def normalise_def levels_def lower_def remove_char_def
      rank_values logging_defs)

section \<open>Facts about dispatch\<close>


lemma deref_written_update: "deref (s\<lparr>written := w\<rparr>) r = deref s r"
  by (simp add: deref_def)

lemma delivery_written_update: "delivery lr (s\<lparr>written := w\<rparr>) q = delivery lr s q"
  by (simp add: delivery_def deref_written_update)

lemma emit_eq:
  "emit r lr s = s\<lparr>written := written s @
     (case deref s r of None \<Rightarrow> []
      | Some h \<Rightarrow> (case format_with (case h_formatter h of Some f \<Rightarrow> f
                               | None \<Rightarrow> Formatter ''%(message)s'') lr of
               Inl e \<Rightarrow> [] | Inr line \<Rightarrow> [(r, line)]))\<rparr>"
  by (simp add: emit_def split: option.splits sum.splits)

lemma callHandlers_eq:
  "callHandlers rs lr s = s\<lparr>written := written s @ concat (map (delivery lr s) rs)\<rparr>"
proof (induction rs arbitrary: s)
  case Nil
  show ?case by simp
next
  case (Cons r rs)
  show ?case
    by (simp add: Cons.IH emit_eq delivery_written_update deref_written_update delivery_def
        split: option.splits sum.splits)
qed













section \<open>Facts about the constructed logger and the terminal handler\<close>

lemma log_eq:
  "log = (process_start Map.empty)\<lparr>logger_level := 20,
             term_format := ''[%(levelname)s%(step)s] - %(message)s'',
             setup_format := ''[%(levelname)s%(step)s] - %(message)s'',
             term_config_loglevel := 20, term_setup_loglevel := 20, term_call_loglevel := 20,
             setup_file_loglevel := 20, call_file_loglevel := 20\<rparr>"
  by (simp add: log_def TestLogger_init_def rank_values no_kwargs_def kwargs_get_def
      process_start_def)

lemma log_fields:
  "logger_level log = 20" "logger_handlers log = []" "objects log = []" "written log = []"
  "term_handler log = None" "setup_file_handler log = None"
  "term_config_loglevel log = 20" "setup_file_loglevel log = 20"
  "term_format log = ''[%(levelname)s%(step)s] - %(message)s''"
  "setup_format log = ''[%(levelname)s%(step)s] - %(message)s''"
  "stepn log = 0" "substepn log = 0" "filesystem log = Map.empty"
  by (simp_all add: log_eq process_start_def)

lemma init_term_handler_eq:
  "init_term_handler lvl fmt s =
     (None,
      s\<lparr>term_config_loglevel := kwargs_get lvl (term_config_loglevel s),
        term_format := kwargs_get fmt (term_format s),
        term_handler := Some (length (objects s)),
        objects := objects s @
          [\<lparr>h_stream = Console,
            h_level = kwargs_get lvl (term_config_loglevel s),
            h_formatter = Some (ColorFormatter (kwargs_get fmt (term_format s)))\<rparr>],
        level_names := (level_names s)(21 \<mapsto> ''STEP'', 22 \<mapsto> ''SUBSTEP'', 23 \<mapsto> ''PASS'', 31 \<mapsto> ''FAIL''),
        logger_handlers := (if length (objects s) \<in> set (logger_handlers s) then logger_handlers s
                            else logger_handlers s @ [length (objects s)])\<rparr>)"
  by (simp add: init_term_handler_def new_handler_def and_then_def setLevel_def setFormatter_def
      ColorFormatter_init_def rank_values addLevelName_def addHandler_def logging_defs
      kwargs_get_def split: option.splits)

lemma init_term_handler_fields:
  "fst (init_term_handler lvl fmt s) = None"
  "objects (snd (init_term_handler lvl fmt s)) = objects s @
          [\<lparr>h_stream = Console,
            h_level = kwargs_get lvl (term_config_loglevel s),
            h_formatter = Some (ColorFormatter (kwargs_get fmt (term_format s)))\<rparr>]"
  "logger_handlers (snd (init_term_handler lvl fmt s)) =
     (if length (objects s) \<in> set (logger_handlers s) then logger_handlers s
      else logger_handlers s @ [length (objects s)])"
  "term_handler (snd (init_term_handler lvl fmt s)) = Some (length (objects s))"
  "term_config_loglevel (snd (init_term_handler lvl fmt s)) = kwargs_get lvl (term_config_loglevel s)"
  "term_format (snd (init_term_handler lvl fmt s)) = kwargs_get fmt (term_format s)"
  "logger_level (snd (init_term_handler lvl fmt s)) = logger_level s"
  "root_level (snd (init_term_handler lvl fmt s)) = root_level s"
  "written (snd (init_term_handler lvl fmt s)) = written s"
  "stepn (snd (init_term_handler lvl fmt s)) = stepn s"
  "substepn (snd (init_term_handler lvl fmt s)) = substepn s"
  by (simp_all add: init_term_handler_eq)

text \<open>
  Claim C9. \<^verbatim>\<open>step\<close> begins with \<^verbatim>\<open>self.stepn += 1\<close> and \<^verbatim>\<open>substep\<close> with
  \<^verbatim>\<open>self.substepn += 1\<close>; both properties have a getter only, so the assignment raises
  \<^verbatim>\<open>AttributeError\<close> whatever the arguments are (also with \<^verbatim>\<open>enable\<close> false or no parts),
  before any record is built: the state, with its counters and its trace, is unchanged.
\<close>

theorem step_substep_raise:
  "step args sep end enable s = (Some AttributeError, s) \<and>
   substep args sep end enable s = (Some AttributeError, s)"
  by (simp add: step_def substep_def and_then_def)

text \<open>Claim C9 on the constructed logger, for an enabled call with a part and a disabled one.\<close>

theorem step_substep_raise_witness:
  "step [''a''] '' '' [] True log = (Some AttributeError, log) \<and>
   substep [] '' '' [] False log = (Some AttributeError, log)"
  using step_substep_raise [of "[''a'']" "'' ''" "[]" True log]
    step_substep_raise [of "[]" "'' ''" "[]" False log] by simp

text \<open>
  Claim C1 fails on the code at its first call. On the constructed logger with a terminal
  attached, \<^verbatim>\<open>step("a")\<close> raises \<^verbatim>\<open>AttributeError\<close>, writes nothing and leaves
  \<^verbatim>\<open>stepn\<close> at 0, so no record with the tag \<^verbatim>\<open>" 1"\<close> is produced.
\<close>

theorem step_first_call_raises:
  "fst (step [''a''] '' '' [] True (snd (init_term_handler None None log)))
     = Some AttributeError \<and>
   written (snd (step [''a''] '' '' [] True (snd (init_term_handler None None log)))) = [] \<and>
   stepn (snd (step [''a''] '' '' [] True (snd (init_term_handler None None log)))) = 0"
  by (simp add: step_def and_then_def init_term_handler_fields log_fields)

text \<open>
  Claim C10. \<^verbatim>\<open>passed\<close> hands the whole entry \<^verbatim>\<open>levels["pass"]\<close> to \<^verbatim>\<open>Logger._log\<close> as
  the level. For an enabled call with at least one part this raises \<^verbatim>\<open>TypeError\<close>
  and leaves the state as it was: nothing is written at the rank of \<^verbatim>\<open>pass\<close>.
\<close>

theorem passed_raises:
  "enable \<Longrightarrow> args \<noteq> [] \<Longrightarrow> passed args sep end enable s = (Some TypeError, s)"
  by (simp add: passed_def levels_item_def levels_def Logger_log_def)

text \<open>Claim C10 on the constructed logger.\<close>

theorem passed_raises_witness:
  "passed [''ok''] '' '' [] True log = (Some TypeError, log)"
  using passed_raises [of True "[''ok'']" "'' ''" "[]" log] by simp

text \<open>
  The sibling \<^verbatim>\<open>fail\<close> passes the integer \<^verbatim>\<open>levels["fail"]["level"]\<close>: on the constructed
  logger with a terminal attached it returns and the terminal receives the line.
\<close>

lemma fail_writes:
  "fst (fail [''ko''] '' '' [] True (snd (init_term_handler None None log))) = None \<and>
   map fst (written (snd (fail [''ko''] '' '' [] True (snd (init_term_handler None None log)))))
     = [0]"
  by (simp add: fail_def rank_values Logger_log_def callHandlers_eq init_term_handler_fields
    log_fields delivery_def deref_def kwargs_get_def format_with_def ColorFormatter_format_def
    get_level_by_value_def levels_by_value_eq levels_item_def levels_def)

text \<open>
  Claim C7, as the code has it. With no terminal handler attached the field holds
  \<^verbatim>\<open>None\<close>, and \<^verbatim>\<open>configure_term_logger_setup\<close> and \<^verbatim>\<open>configure_term_logger_call\<close> raise
  \<^verbatim>\<open>AttributeError\<close>; the state is left unchanged.
\<close>

theorem configure_term_logger_unattached:
  "term_handler s = None \<Longrightarrow>
   configure_term_logger_setup s = (Some AttributeError, s) \<and>
   configure_term_logger_call s = (Some AttributeError, s)"
  by (simp add: configure_term_logger_setup_def configure_term_logger_call_def setLevel_def)

text \<open>Claim C7 as amended, on the constructed logger, which has no terminal handler yet.\<close>

theorem configure_term_logger_unattached_witness:
  "term_handler log = None \<and>
   configure_term_logger_setup log = (Some AttributeError, log) \<and>
   configure_term_logger_call log = (Some AttributeError, log)"
proof -
  have h: "term_handler log = None" by (simp add: log_fields)
  from configure_term_logger_unattached [OF h] h show ?thesis by simp
qed

text \<open>
  Claim C7 as the specification words it fails: on the constructed logger, before any
  terminal is attached, both calls raise instead of returning silently.
\<close>

theorem configure_term_logger_not_silent:
  "fst (configure_term_logger_setup log) = Some AttributeError \<and>
   fst (configure_term_logger_call log) = Some AttributeError"
  by (simp add: log_fields configure_term_logger_setup_def configure_term_logger_call_def
      setLevel_def)

section \<open>Threshold filtering\<close>





section \<open>Attaching the terminal twice\<close>











section \<open>Attaching the setup file\<close>















end
